theory Spec2Isabelle
  imports Complex_Main "HOL-Library.Word"
begin

section \<open>Sauron sky renderer: the projector interface (Projector.hpp)\<close>

text \<open>
  The header declares the class \<open>Projector\<close>, its parameter block \<open>ProjectorParams\<close>,
  the transform capability \<open>ModelViewTransform\<close> and the variant
  \<open>ProjectorPerspective\<close>. The member functions whose bodies the header gives are the
  viewport accessors, \<open>GetFov\<close>, \<open>GetModelViewTransform\<close> and
  \<open>ProjectorPerspective::GetMaxFov\<close>; every other member is a declaration only.

  Numbers: \<open>int\<close> is a 32-bit word, read as two's complement by \<open>sint\<close>. A
  \<open>float\<close> is modelled by the real number it denotes; the only \<open>float\<close> values the
  header writes (0, 60, 120, 128) are exactly representable and no arithmetic is done on
  them, so no rounding is involved in anything below.
\<close>

subsection \<open>Vectors\<close>

type_synonym int32 = "32 word"

text \<open>\<open>glm::tvec4<int>\<close> with members \<open>x\<close>, \<open>y\<close>, \<open>z\<close>, \<open>w\<close>.\<close>

datatype 'a tvec4 = tvec4 (tvec4_x: 'a) (tvec4_y: 'a) (tvec4_z: 'a) (tvec4_w: 'a)

text \<open>\<open>glm::vec2\<close> with members \<open>x\<close>, \<open>y\<close>.\<close>

datatype vec2 = vec2 (vec2_x: real) (vec2_y: real)

subsection \<open>ProjectorParams\<close>

record ProjectorParams =
  viewport_xy_wh :: "int32 tvec4"
  fov :: real
  z_near :: real
  z_far :: real
  viewport_center :: vec2
  viewport_fov_diameter :: real

text \<open>
  The default member initialisers of the struct: the value of \<open>ProjectorParams()\<close>.
\<close>

definition ProjectorParams_default :: ProjectorParams where
  "ProjectorParams_default =
     \<lparr> viewport_xy_wh = tvec4 0 0 256 256,
       fov = 60,
       z_near = 0,
       z_far = 0,
       viewport_center = vec2 128 128,
       viewport_fov_diameter = 0 \<rparr>"

subsection \<open>Projector state\<close>

text \<open>
  The protected members of \<open>Projector\<close> (the trailing underscore of the C++ names is
  dropped). The owned \<open>ModelViewTransform\<close> is an abstract class with pure virtual
  members, so its representation is left as a type parameter.
  \<open>ProjectorPerspective\<close> derives from \<open>Projector\<close> and adds no field.
\<close>

record 'mv Projector =
  model_view_transform :: 'mv
  params :: ProjectorParams
  pixel_per_rad :: real
  one_over_z_near_minus_far :: real

type_synonym 'mv ProjectorPerspective = "'mv Projector"

text \<open>
  The state that the default member initialisers give to a projector built over the
  transform \<open>mv\<close>: default parameters, both derived constants 0.
\<close>

definition Projector_members_default :: "'mv \<Rightarrow> 'mv Projector" where
  "Projector_members_default mv =
     \<lparr> model_view_transform = mv,
       params = ProjectorParams_default,
       pixel_per_rad = 0,
       one_over_z_near_minus_far = 0 \<rparr>"

subsection \<open>Inline member function bodies\<close>

text \<open>
  Each inline body of the header is a sequence of statements, of which two kinds occur:
  an expression statement \<open>e;\<close>, whose value is discarded, and \<open>return e;\<close>.
  \<open>call\<close> runs a body of a function with a non-void return type: the first
  \<open>return\<close> reached gives the value of the call. When control flows off the end of
  the body no value is returned (in C++ the behaviour of such a call is undefined); the
  model makes that outcome explicit as \<open>None\<close>.
\<close>

datatype ('e, 'r) stmt = ExprStmt 'e | ReturnStmt 'r

fun call :: "('e, 'r) stmt list \<Rightarrow> 'r option" where
  "call [] = None"
| "call (ExprStmt e # rest) = call rest"
| "call (ReturnStmt r # rest) = Some r"

text \<open>\<open>glm::tvec4<int> const & GetViewport() const { return params_.viewport_xy_wh; }\<close>\<close>

definition GetViewport :: "'mv Projector \<Rightarrow> int32 tvec4 option" where
  "GetViewport p = call [ReturnStmt (viewport_xy_wh (params p)) :: (unit, int32 tvec4) stmt]"

text \<open>\<open>int GetViewportPosX() const { return params_.viewport_xy_wh.x; }\<close>\<close>

definition GetViewportPosX :: "'mv Projector \<Rightarrow> int32 option" where
  "GetViewportPosX p = call [ReturnStmt (tvec4_x (viewport_xy_wh (params p))) :: (unit, int32) stmt]"

text \<open>\<open>int GetViewportPosY() const { return params_.viewport_xy_wh.y; }\<close>\<close>

definition GetViewportPosY :: "'mv Projector \<Rightarrow> int32 option" where
  "GetViewportPosY p = call [ReturnStmt (tvec4_y (viewport_xy_wh (params p))) :: (unit, int32) stmt]"

text \<open>\<open>int GetViewportWidth() const { return params_.viewport_xy_wh.z; }\<close>\<close>

definition GetViewportWidth :: "'mv Projector \<Rightarrow> int32 option" where
  "GetViewportWidth p = call [ReturnStmt (tvec4_z (viewport_xy_wh (params p))) :: (unit, int32) stmt]"

text \<open>\<open>int GetViewportHeight() const { return params_.viewport_xy_wh.w; }\<close>\<close>

definition GetViewportHeight :: "'mv Projector \<Rightarrow> int32 option" where
  "GetViewportHeight p = call [ReturnStmt (tvec4_w (viewport_xy_wh (params p))) :: (unit, int32) stmt]"

text \<open>
  \<open>float GetFov() const { params_.fov; }\<close>: the body is the single expression statement
  \<open>params_.fov;\<close>. There is no \<open>return\<close>.
\<close>

definition GetFov :: "'mv Projector \<Rightarrow> real option" where
  "GetFov p = call [ExprStmt (fov (params p)) :: (real, real) stmt]"

text \<open>
  \<open>std::shared_ptr<ModelViewTransform> const & GetModelViewTransform() const
  { return model_view_transform_; }\<close>
\<close>

definition GetModelViewTransform :: "'mv Projector \<Rightarrow> 'mv option" where
  "GetModelViewTransform p = call [ReturnStmt (model_view_transform p) :: (unit, 'mv) stmt]"

text \<open>\<open>float ProjectorPerspective::GetMaxFov() const override { return 120; }\<close>\<close>

definition GetMaxFov :: "'mv ProjectorPerspective \<Rightarrow> real option" where
  "GetMaxFov p = call [ReturnStmt 120 :: (unit, real) stmt]"

section \<open>Properties\<close>

subsection \<open>The accessors that return\<close>

lemma GetViewport_returns: "GetViewport p = Some (viewport_xy_wh (params p))"
  by (simp add: GetViewport_def)

lemma GetViewportPosX_returns: "GetViewportPosX p = Some (tvec4_x (viewport_xy_wh (params p)))"
  by (simp add: GetViewportPosX_def)

lemma GetViewportPosY_returns: "GetViewportPosY p = Some (tvec4_y (viewport_xy_wh (params p)))"
  by (simp add: GetViewportPosY_def)

lemma GetViewportWidth_returns: "GetViewportWidth p = Some (tvec4_z (viewport_xy_wh (params p)))"
  by (simp add: GetViewportWidth_def)

lemma GetViewportHeight_returns: "GetViewportHeight p = Some (tvec4_w (viewport_xy_wh (params p)))"
  by (simp add: GetViewportHeight_def)

lemma GetModelViewTransform_returns: "GetModelViewTransform p = Some (model_view_transform p)"
  by (simp add: GetModelViewTransform_def)

subsection \<open>GetMaxFov of the perspective projector\<close>

text \<open>
  Claim C8. \<open>ProjectorPerspective::GetMaxFov()\<close> returns exactly 120, for every
  instance: whatever the transform, the parameters and the derived constants of the
  projector are, the call returns, and its value is 120.
\<close>

theorem GetMaxFov_is_120: "GetMaxFov p = Some 120"
  by (simp add: GetMaxFov_def)

subsection \<open>The default parameter block\<close>

text \<open>
  Claim C10. A default-constructed \<open>ProjectorParams\<close> has viewport (0, 0, 256, 256),
  fov 60, z_near 0, z_far 0, viewport centre (128, 128) and FOV-disk diameter 0. Its
  z_near equals its z_far, so z_near < z_far is false of the default value.
\<close>

theorem ProjectorParams_default_values:
  "viewport_xy_wh ProjectorParams_default = tvec4 0 0 256 256 \<and>
   fov ProjectorParams_default = 60 \<and>
   z_near ProjectorParams_default = 0 \<and>
   z_far ProjectorParams_default = 0 \<and>
   viewport_center ProjectorParams_default = vec2 128 128 \<and>
   viewport_fov_diameter ProjectorParams_default = 0 \<and>
   z_near ProjectorParams_default = z_far ProjectorParams_default \<and>
   \<not> z_near ProjectorParams_default < z_far ProjectorParams_default"
  by (simp add: ProjectorParams_default_def)

subsection \<open>GetFov\<close>

text \<open>
  A body without a \<open>return\<close> statement returns no value, whatever its expression
  statements compute; \<open>GetFov\<close> has such a body, in every state of the projector.
\<close>

lemma call_no_return: "call (map ExprStmt es) = None"
  by (induction es) simp_all

lemma GetFov_never_returns: "GetFov p = None"
  by (simp add: GetFov_def)

text \<open>
  Claim C2. \<open>GetFov()\<close> is documented as the accessor of the current FOV, the
  \<open>fov\<close> field of the projector's parameters. Its body evaluates that field and
  discards it: control flows off the end, and the call returns no value. At a projector
  holding the default parameters the field is 60, and the call does not return 60; the
  sibling accessor \<open>GetViewportWidth\<close> of the same projector returns its field, 256.
\<close>

theorem GetFov_returns_no_value:
  "fov (params (Projector_members_default mv)) = 60 \<and>
   GetFov (Projector_members_default mv) = None \<and>
   GetFov (Projector_members_default mv) \<noteq> Some 60 \<and>
   GetViewportWidth (Projector_members_default mv) = Some 256"
  by (simp add: GetFov_def GetViewportWidth_def Projector_members_default_def
      ProjectorParams_default_def)

end
